theory Spec2Isabelle
  imports Complex_Main "HOL-Library.Multiset"
begin

section \<open>Data model of \<open>CountryGraph.tsx\<close>\<close>

text \<open>
  \<open>interface CountryLink { source: string; target: string }\<close>.
\<close>

record CountryLink =
  source :: string
  target :: string

text \<open>
  \<open>interface CountryNode extends d3.SimulationNodeDatum { id: string; neighbors: string[] }\<close>.
  Of the optional fields of \<open>SimulationNodeDatum\<close> the component reads and writes
  \<open>x\<close>, \<open>y\<close>, \<open>fx\<close> and \<open>fy\<close>; an absent (\<open>undefined\<close>) or \<open>null\<close> field is \<open>None\<close>.
  The fields carry the prefix \<open>node_\<close> since \<open>id\<close> is the identity function of HOL and
  \<open>x\<close>, \<open>y\<close> would capture the variables of every statement. A JavaScript number is
  modelled as a real number: the rounding of doubles is left out (the lengths, their
  halves and the constants of this file are doubles exactly; a tenth of a length is
  rounded).
\<close>

record CountryNode =
  node_id :: string
  neighbors :: "string list"
  node_x :: "real option"
  node_y :: "real option"
  node_fx :: "real option"
  node_fy :: "real option"

text \<open>
  What the build effect computes before it draws: the \<open>Set\<close> \<open>countries\<close> (a JavaScript
  \<open>Set\<close> iterates in insertion order, so it is a list without repetition), the array
  \<open>links\<close> and the array \<open>nodes\<close>.
\<close>

record GraphModel =
  countries :: "string list"
  links :: "CountryLink list"
  nodes :: "CountryNode list"

section \<open>The build: lines 57 to 76\<close>

text \<open>\<open>countries.add(c)\<close>: a value already in the set is not added again.\<close>

definition set_add :: "string list \<Rightarrow> string \<Rightarrow> string list" where
  "set_add cs c = (if c \<in> set cs then cs else cs @ [c])"

text \<open>
  The \<open>forEach\<close> over \<open>adjacencyList\<close>: each entry \<open>[source, target]\<close> adds both names
  to \<open>countries\<close> and pushes one link. The accumulator is the pair of the two
  variables the callback mutates.
\<close>

fun extract_entries :: "(string \<times> string) list \<Rightarrow> string list \<times> CountryLink list
    \<Rightarrow> string list \<times> CountryLink list" where
  "extract_entries [] acc = acc"
| "extract_entries ((s, t) # entries) (cs, ls) =
     extract_entries entries (set_add (set_add cs s) t, ls @ [\<lparr>source = s, target = t\<rparr>])"

text \<open>
  \<open>links.filter(link => link.source === id || link.target === id)
        .map(link => link.source === id ? link.target : link.source)\<close>
\<close>

definition neighbors_of :: "CountryLink list \<Rightarrow> string \<Rightarrow> string list" where
  "neighbors_of ls i =
     map (\<lambda>l. if source l = i then target l else source l)
       (filter (\<lambda>l. source l = i \<or> target l = i) ls)"

text \<open>The object literal \<open>{ id, neighbors: ... }\<close>: no position and no pin yet.\<close>

definition new_node :: "CountryLink list \<Rightarrow> string \<Rightarrow> CountryNode" where
  "new_node ls i =
     \<lparr>node_id = i, neighbors = neighbors_of ls i,
      node_x = None, node_y = None, node_fx = None, node_fy = None\<rparr>"

text \<open>
  The comparator \<open>(a, b) => b.neighbors.length - a.neighbors.length\<close>.
\<close>

definition by_connections :: "CountryNode \<Rightarrow> CountryNode \<Rightarrow> int" where
  "by_connections a b = int (length (neighbors b)) - int (length (neighbors a))"

text \<open>
  \<open>Array.prototype.sort\<close> with a comparator. The sort is stable (ECMAScript 2019), and
  for a consistent comparator its result is the one stable sorted arrangement of the
  array; insertion from the right computes it: an element goes in front of the first
  element it does not compare greater than, so in front of its equals, which stood
  behind it.
\<close>

fun js_insert :: "('a \<Rightarrow> 'a \<Rightarrow> int) \<Rightarrow> 'a \<Rightarrow> 'a list \<Rightarrow> 'a list" where
  "js_insert cmp a [] = [a]"
| "js_insert cmp a (b # bs) = (if cmp a b \<le> 0 then a # b # bs else b # js_insert cmp a bs)"

fun js_sort :: "('a \<Rightarrow> 'a \<Rightarrow> int) \<Rightarrow> 'a list \<Rightarrow> 'a list" where
  "js_sort cmp [] = []"
| "js_sort cmp (a # as) = js_insert cmp a (js_sort cmp as)"

text \<open>
  The whole preparation of the data, from the entries of \<open>adjacencyList\<close> to the
  sorted array \<open>nodes\<close>.
\<close>

definition build :: "(string \<times> string) list \<Rightarrow> GraphModel" where
  "build adjacencyList =
     (let (cs, ls) = extract_entries adjacencyList ([], [])
      in \<lparr>countries = cs, links = ls,
          nodes = js_sort by_connections (map (new_node ls) cs)\<rparr>)"

section \<open>Styling derived from the neighbor count\<close>

text \<open>\<open>.attr("r", d => 4 + Math.min(d.neighbors.length / 2, 5))\<close>\<close>

definition circle_r :: "nat \<Rightarrow> real" where
  "circle_r n = 4 + min (real n / 2) 5"

text \<open>The radius while the pointer is over the node: \<open>8 + Math.min(d.neighbors.length / 2, 5)\<close>.\<close>

definition mouseover_r :: "nat \<Rightarrow> real" where
  "mouseover_r n = 8 + min (real n / 2) 5"

text \<open>\<open>const size = 10 + Math.min(d.neighbors.length / 10, 2)\<close>\<close>

definition font_size :: "nat \<Rightarrow> real" where
  "font_size n = 10 + min (real n / 10) 2"

text \<open>
  \<open>colorScale(Math.min(d.neighbors.length, 40))\<close>. The scale is built by d3
  (\<open>scaleLinear\<close> over the domain \<open>[0, 20, 40]\<close> with \<open>interpolateHcl\<close>); it is a
  parameter here, a function from a number to a color.
\<close>

definition circle_fill :: "(real \<Rightarrow> 'color) \<Rightarrow> nat \<Rightarrow> 'color" where
  "circle_fill colorScale n = colorScale (min (real n) 40)"

text \<open>The radius and the fill of a node's circle.\<close>

definition node_r :: "CountryNode \<Rightarrow> real" where
  "node_r d = circle_r (length (neighbors d))"

section \<open>The click handler: lines 202 to 211\<close>

text \<open>
  A template literal turns a number into its decimal numeral; for a length, a natural
  number, these are its digits, most significant first.
\<close>

definition digit_char :: "nat \<Rightarrow> char" where
  "digit_char k = char_of (48 + k)"

function string_of_nat :: "nat \<Rightarrow> string" where
  "string_of_nat n =
     (if n < 10 then [digit_char n] else string_of_nat (n div 10) @ [digit_char (n mod 10)])"
  by pat_completeness auto
termination
  by (relation "measure (\<lambda>n. n)") auto

declare string_of_nat.simps [simp del]

text \<open>\<open>Array.prototype.join(sep)\<close> on an array of strings.\<close>

fun array_join :: "string \<Rightarrow> string list \<Rightarrow> string" where
  "array_join sep [] = []"
| "array_join sep [a] = a"
| "array_join sep (a # b # bs) = a @ sep @ array_join sep (b # bs)"

text \<open>The number a string of decimal digits denotes; it reads \<open>string_of_nat\<close> back.\<close>

definition decimal_value :: "string \<Rightarrow> nat" where
  "decimal_value ds = foldl (\<lambda>v c. 10 * v + (of_char c - 48)) 0 ds"

text \<open>What \<open>toast.info(title, { description })\<close> receives.\<close>

record Toast =
  title :: string
  description :: string

text \<open>
  \<open>toast.info(`${d.id} has borders with ${d.neighbors.length} countries`, {
     description: d.neighbors.slice(0, 5).join(", ") +
       (d.neighbors.length > 5 ? ` and ${d.neighbors.length - 5} more...` : "") })\<close>
\<close>

definition click :: "CountryNode \<Rightarrow> Toast" where
  "click d =
     \<lparr>title = node_id d @ '' has borders with '' @ string_of_nat (length (neighbors d))
        @ '' countries'',
      description = array_join '', '' (take 5 (neighbors d))
        @ (if length (neighbors d) > 5
           then '' and '' @ string_of_nat (length (neighbors d) - 5) @ '' more...''
           else '''')\<rparr>"

section \<open>The simulation and the drag handlers: lines 283 to 305\<close>

text \<open>
  What the component sets and reads of the d3 simulation: the node objects it was
  given (by their addresses in the heap of node objects, see below), the strength of
  the force registered as \<open>"charge"\<close>, \<open>alpha\<close>, \<open>alphaTarget\<close>, \<open>alphaDecay\<close>, and
  whether its timer runs (\<open>restart()\<close> starts it, \<open>stop()\<close> stops it).
\<close>

record Simulation =
  sim_nodes :: "nat list"
  charge :: real
  alpha :: real
  alphaTarget :: real
  alphaDecay :: real
  running :: bool

text \<open>
  The event d3-drag passes to a handler: \<open>event.active\<close>, the number of other drag
  gestures still active, and \<open>event.x\<close>, \<open>event.y\<close>.
\<close>

record DragEvent =
  active :: nat
  event_x :: real
  event_y :: real

text \<open>
  \<open>function dragstarted(event, d) {
     if (!event.active) simulation.alphaTarget(0.3).restart();
     d.fx = d.x; d.fy = d.y; }\<close>
  The handlers mutate the simulation and the node \<open>d\<close>; the model returns both.
\<close>

definition dragstarted :: "DragEvent \<Rightarrow> Simulation \<times> CountryNode \<Rightarrow> Simulation \<times> CountryNode" where
  "dragstarted event = (\<lambda>(simulation, d).
     ((if active event = 0 then simulation\<lparr>alphaTarget := 0.3, running := True\<rparr>
       else simulation),
      d\<lparr>node_fx := node_x d, node_fy := node_y d\<rparr>))"

text \<open>\<open>function dragged(event, d) { d.fx = event.x; d.fy = event.y; }\<close>\<close>

definition dragged :: "DragEvent \<Rightarrow> Simulation \<times> CountryNode \<Rightarrow> Simulation \<times> CountryNode" where
  "dragged event = (\<lambda>(simulation, d).
     (simulation, d\<lparr>node_fx := Some (event_x event), node_fy := Some (event_y event)\<rparr>))"

text \<open>
  \<open>function dragended(event, d) {
     if (!event.active) simulation.alphaTarget(0);
     d.fx = null; d.fy = null; }\<close>
\<close>

definition dragended :: "DragEvent \<Rightarrow> Simulation \<times> CountryNode \<Rightarrow> Simulation \<times> CountryNode" where
  "dragended event = (\<lambda>(simulation, d).
     ((if active event = 0 then simulation\<lparr>alphaTarget := 0\<rparr> else simulation),
      d\<lparr>node_fx := None, node_fy := None\<rparr>))"

text \<open>
  \<open>d3.drag().on("start", dragstarted).on("drag", dragged).on("end", dragended)\<close>: a
  gesture on a node is one start event (pointer-down), any number of drag events
  (pointer-move) and one end event (pointer-up).
\<close>

datatype DragType = Start | Drag | End

fun drag :: "DragType \<Rightarrow> DragEvent \<Rightarrow> Simulation \<times> CountryNode \<Rightarrow> Simulation \<times> CountryNode" where
  "drag Start = dragstarted"
| "drag Drag = dragged"
| "drag End = dragended"

text \<open>The state after the start event and the given drag events, in their order.\<close>

definition dragging :: "DragEvent \<Rightarrow> DragEvent list \<Rightarrow> Simulation \<times> CountryNode
    \<Rightarrow> Simulation \<times> CountryNode" where
  "dragging down moves s = foldl (\<lambda>s' e. drag Drag e s') (drag Start down s) moves"

text \<open>The state after the whole gesture, released by the end event.\<close>

definition gesture :: "DragEvent \<Rightarrow> DragEvent list \<Rightarrow> DragEvent \<Rightarrow> Simulation \<times> CountryNode
    \<Rightarrow> Simulation \<times> CountryNode" where
  "gesture down moves up s = drag End up (dragging down moves s)"

text \<open>
  Modelled from the spec: step (b) of the tick protocol for one node, ``integrates
  velocity into position except for pinned nodes (whose position is forced to the pin
  value)''. d3-force carries it out; its code is not among the repository's files.
  The velocity \<open>(vx, vy)\<close> that step (a) has accumulated for the node from the forces
  is the parameter \<open>v\<close>. A coordinate that is pinned takes the value of the pin; one
  that is not moves by the velocity.
\<close>

definition integrate :: "real \<times> real \<Rightarrow> CountryNode \<Rightarrow> CountryNode" where
  "integrate v d =
     d\<lparr>node_x := (case node_fx d of
                    Some px \<Rightarrow> Some px
                  | None \<Rightarrow> map_option (\<lambda>x. x + fst v) (node_x d)),
       node_y := (case node_fy d of
                    Some py \<Rightarrow> Some py
                  | None \<Rightarrow> map_option (\<lambda>y. y + snd v) (node_y d))\<rparr>"

text \<open>
  Modelled from the spec: a tick of the simulation, as far as it moves a node. A tick
  takes place while the simulation runs (``ticking may pause until externally
  restarted''), and then integrates the node. The decay of alpha, step (c), and the
  pause below the stop threshold are d3's too and are left out: the statements below
  say what a tick does to the node when it takes place.
\<close>

definition tick :: "real \<times> real \<Rightarrow> Simulation \<times> CountryNode \<Rightarrow> Simulation \<times> CountryNode" where
  "tick v = (\<lambda>(simulation, d).
     if running simulation then (simulation, integrate v d) else (simulation, d))"

section \<open>The component and its two effects: lines 47 to 280\<close>

text \<open>
  The state of the mounted component, as far as the effects write it: the node
  objects created so far (an object is its address, the index into \<open>heap\<close>; an object
  is never moved or deleted, only updated in place), \<open>simulationRef.current\<close>, and the
  value of the prop \<open>forceStrength\<close> at the last render, which the dependency arrays
  of the effects are compared with.
\<close>

record Component =
  heap :: "CountryNode list"
  simulationRef :: "Simulation option"
  deps :: real

text \<open>
  The first effect (lines 47 to 270, dependency array \<open>[forceStrength]\<close>), for a mounted
  component (both refs set): it builds the model from \<open>adjacencyList\<close>, creating a new
  object for every node, creates the simulation on these objects with
  \<open>forceManyBody().strength(-forceStrength)\<close> as the charge and \<open>alphaDecay(0.01)\<close>
  (a new d3 simulation has alpha 1 and alphaTarget 0 and runs), and stores it in
  \<open>simulationRef.current\<close>. \<open>d3.forceSimulation(nodes)\<close> gives every node that has no
  position one that depends on its index in the array alone; this placement is d3's
  and is the parameter \<open>place\<close>.
\<close>

definition build_effect :: "(nat \<Rightarrow> real \<times> real) \<Rightarrow> (string \<times> string) list \<Rightarrow> real
    \<Rightarrow> Component \<Rightarrow> Component" where
  "build_effect place adjacencyList forceStrength c =
     (let created = nodes (build adjacencyList);
          placed = map (\<lambda>(i, d). d\<lparr>node_x := Some (fst (place i)),
                                    node_y := Some (snd (place i))\<rparr>)
                     (enumerate 0 created);
          simulation =
            \<lparr>sim_nodes = [length (heap c) ..< length (heap c) + length created],
             charge = - forceStrength, alpha = 1, alphaTarget = 0, alphaDecay = 0.01,
             running = True\<rparr>
      in c\<lparr>heap := heap c @ placed, simulationRef := Some simulation\<rparr>)"

text \<open>The cleanup the first effect returns: \<open>simulation.stop()\<close>.\<close>

definition cleanup :: "Component \<Rightarrow> Component" where
  "cleanup c =
     (case simulationRef c of
        None \<Rightarrow> c
      | Some simulation \<Rightarrow> c\<lparr>simulationRef := Some (simulation\<lparr>running := False\<rparr>)\<rparr>)"

text \<open>
  The second effect (lines 272 to 280, dependency array \<open>[forceStrength]\<close>):
  \<open>if (simulationRef.current) simulationRef.current
     .force("charge", d3.forceManyBody().strength(-forceStrength)).alpha(0.3).restart()\<close>
\<close>

definition strength_effect :: "real \<Rightarrow> Component \<Rightarrow> Component" where
  "strength_effect forceStrength c =
     (case simulationRef c of
        None \<Rightarrow> c
      | Some simulation \<Rightarrow>
          c\<lparr>simulationRef :=
              Some (simulation\<lparr>charge := - forceStrength, alpha := 0.3, running := True\<rparr>)\<rparr>)"

text \<open>
  React runs the effects of a component after its first render, in the order they are
  written.
\<close>

definition mount :: "(nat \<Rightarrow> real \<times> real) \<Rightarrow> (string \<times> string) list \<Rightarrow> real
    \<Rightarrow> Component" where
  "mount place adjacencyList forceStrength =
     strength_effect forceStrength
       (build_effect place adjacencyList forceStrength
          \<lparr>heap = [], simulationRef = None, deps = forceStrength\<rparr>)"

text \<open>
  After a later render React runs again every effect whose dependency array holds a
  changed value, the cleanup of its last run first. Both effects depend on
  \<open>[forceStrength]\<close>, so a render with a new \<open>forceStrength\<close> runs the cleanup, the
  first effect and the second effect; a render with the same value runs nothing.
\<close>

definition rerender :: "(nat \<Rightarrow> real \<times> real) \<Rightarrow> (string \<times> string) list \<Rightarrow> real
    \<Rightarrow> Component \<Rightarrow> Component" where
  "rerender place adjacencyList forceStrength c =
     (if forceStrength = deps c then c
      else strength_effect forceStrength
             (build_effect place adjacencyList forceStrength (cleanup c\<lparr>deps := forceStrength\<rparr>)))"

text \<open>
  A drag handler called by d3, or a tick, on the node object at address \<open>a\<close>, with
  the simulation of the component.
\<close>

definition on_node :: "nat \<Rightarrow> (Simulation \<times> CountryNode \<Rightarrow> Simulation \<times> CountryNode)
    \<Rightarrow> Component \<Rightarrow> Component" where
  "on_node a handler c =
     (case simulationRef c of
        None \<Rightarrow> c
      | Some simulation \<Rightarrow>
          if a < length (heap c)
          then (case handler (simulation, heap c ! a) of
                  (simulation', d') \<Rightarrow>
                    c\<lparr>heap := (heap c)[a := d'], simulationRef := Some simulation'\<rparr>)
          else c)"

text \<open>The node objects the current simulation moves.\<close>

definition simulated :: "Component \<Rightarrow> CountryNode list" where
  "simulated c =
     (case simulationRef c of
        None \<Rightarrow> []
      | Some simulation \<Rightarrow> map (\<lambda>a. heap c ! a) (sim_nodes simulation))"

section \<open>The viewport transform: lines 225 to 232\<close>

text \<open>d3's zoom transform: the scale \<open>k\<close> and the translation \<open>(x, y)\<close>.\<close>

record Transform =
  zoom_k :: real
  zoom_x :: real
  zoom_y :: real

text \<open>
  \<open>d3.zoomIdentity\<close>: the transform of an element that was never zoomed, so the one
  the first gesture starts from.
\<close>

definition zoomIdentity :: Transform where
  "zoomIdentity = \<lparr>zoom_k = 1, zoom_x = 0, zoom_y = 0\<rparr>"

text \<open>\<open>d3.zoom().scaleExtent([0.1, 4])\<close>\<close>

definition scaleExtent :: "real \<times> real" where
  "scaleExtent = (0.1, 4)"

text \<open>
  Modelled from the spec: the gestures that \<open>applyGesture(delta)\<close> takes, ``a pointer
  drag or scroll/pinch event''. d3-zoom reads them from the pointer; its code is not
  among the repository's files, which only configure it. A gesture pans by an offset,
  or zooms by a factor about the position of the pointer.
\<close>

datatype Gesture = Pan real real | Zoom real real real

text \<open>
  Modelled from the spec: the clamp of ``clamped to the scale invariant (I3)'' and
  ``out-of-range gesture deltas are clamped, not rejected'', which d3-zoom applies to
  the scale a gesture asks for, with the extent the component configured.
\<close>

definition clamp_scale :: "real \<Rightarrow> real" where
  "clamp_scale v = max (fst scaleExtent) (min (snd scaleExtent) v)"

text \<open>
  Modelled from the spec: \<open>applyGesture(delta)\<close>, which ``updates translate/scale from
  a pointer drag or scroll/pinch event, clamped to the scale invariant''; d3-zoom
  carries it out. A pan adds to the translation; a zoom multiplies the scale, clamps
  it, and moves the translation so that the point under the pointer stays where it is.
\<close>

fun applyGesture :: "Gesture \<Rightarrow> Transform \<Rightarrow> Transform" where
  "applyGesture (Pan dx dy) t = t\<lparr>zoom_x := zoom_x t + dx, zoom_y := zoom_y t + dy\<rparr>"
| "applyGesture (Zoom factor px py) t =
     (let k' = clamp_scale (zoom_k t * factor)
      in \<lparr>zoom_k = k',
          zoom_x = px - (px - zoom_x t) / zoom_k t * k',
          zoom_y = py - (py - zoom_y t) / zoom_k t * k'\<rparr>)"

text \<open>
  The transform after a sequence of gestures, ``gestures compose''. The reset of the
  view (lines 29 to 45) is not among them: it is no gesture but a transition that d3
  runs on \<open>zoom.transform\<close>, and it is not modelled.
\<close>

definition view_after :: "Gesture list \<Rightarrow> Transform \<Rightarrow> Transform" where
  "view_after gestures t = foldl (\<lambda>t' g. applyGesture g t') t gestures"

text \<open>The scale invariant (I3), for the configured extent.\<close>

definition scale_in_extent :: "Transform \<Rightarrow> bool" where
  "scale_in_extent t \<longleftrightarrow> fst scaleExtent \<le> zoom_k t \<and> zoom_k t \<le> snd scaleExtent"

section \<open>Notions the statements use\<close>

text \<open>The names of the entries in the order the scan meets them: source, then target.\<close>

definition names_of :: "(string \<times> string) list \<Rightarrow> string list" where
  "names_of es = concat (map (\<lambda>(s, t). [s, t]) es)"

text \<open>
  First-seen order: every value once, at the place of its first occurrence. The head
  comes first, and is taken out of what the tail yields.
\<close>

fun first_seen :: "'a list \<Rightarrow> 'a list" where
  "first_seen [] = []"
| "first_seen (a # as) = a # removeAll a (first_seen as)"

text \<open>
  The key the comparator \<open>by_connections\<close> orders by: a node with more neighbors has
  the smaller key, so it comes earlier.
\<close>

definition connections_key :: "CountryNode \<Rightarrow> int" where
  "connections_key d = - int (length (neighbors d))"

text \<open>
  What ECMAScript promises of \<open>xs.sort(cmp)\<close>, whatever algorithm the engine runs: the
  result \<open>ys\<close> holds the elements of \<open>xs\<close>, no element stands before one it compares
  greater than, and elements that compare equal keep the order they had.
\<close>

definition js_sort_result :: "('a \<Rightarrow> 'a \<Rightarrow> int) \<Rightarrow> 'a list \<Rightarrow> 'a list \<Rightarrow> bool" where
  "js_sort_result cmp xs ys \<longleftrightarrow>
     mset ys = mset xs \<and>
     sorted_wrt (\<lambda>a b. cmp a b \<le> 0) ys \<and>
     (\<forall>a. filter (\<lambda>b. cmp a b = 0) ys = filter (\<lambda>b. cmp a b = 0) xs)"

text \<open>
  A run of the build on some engine: the code of \<open>build\<close> with the sort left to any
  algorithm that keeps the promise above. \<open>builds es g\<close> says that \<open>g\<close> is what such a
  run can produce from the entries \<open>es\<close>.
\<close>

definition builds :: "(string \<times> string) list \<Rightarrow> GraphModel \<Rightarrow> bool" where
  "builds adjacencyList g \<longleftrightarrow>
     (case extract_entries adjacencyList ([], []) of
        (cs, ls) \<Rightarrow>
          countries g = cs \<and> links g = ls \<and>
          js_sort_result by_connections (map (new_node ls) cs) (nodes g))"

section \<open>The build: countries, links and nodes\<close>

text \<open>The scan pushes one link for each entry, behind the links it started with.\<close>

lemma extract_links:
  "snd (extract_entries es (cs, ls)) = ls @ map (\<lambda>(s, t). \<lparr>source = s, target = t\<rparr>) es"
  by (induction es arbitrary: cs ls) auto

lemma filter_removeAll: "filter P (removeAll a xs) = filter (\<lambda>c. c \<noteq> a \<and> P c) xs"
  by (induction xs) auto

text \<open>
  The scan appends to the set it started with the names it had not yet, in first-seen
  order.
\<close>

lemma extract_countries:
  "fst (extract_entries es (cs, ls)) = cs @ filter (\<lambda>c. c \<notin> set cs) (first_seen (names_of es))"
proof (induction es arbitrary: cs ls)
  case Nil
  show ?case by (simp add: names_of_def)
next
  case (Cons e es)
  obtain s t where e: "e = (s, t)" by (cases e)
  have names: "names_of ((s, t) # es) = s # t # names_of es"
    by (simp add: names_of_def)
  show ?case
    unfolding e names extract_entries.simps Cons.IH
    by (auto simp: set_add_def filter_removeAll intro!: filter_cong)
qed

text \<open>
  With the comparator of the build, the sort is the stable insertion sort of the
  library on the key \<open>connections_key\<close>.
\<close>

lemma js_insert_insort:
  "js_insert by_connections a bs = insort_key connections_key a bs"
  by (induction bs) (auto simp: by_connections_def connections_key_def)

lemma js_sort_sort_key:
  "js_sort by_connections ds = sort_key connections_key ds"
  by (induction ds) (auto simp: js_insert_insort)


lemma insort_key_map:
  "insort_key f (g a) (map g bs) = map g (insort_key (\<lambda>x. f (g x)) a bs)"
  by (induction bs) auto

lemma sort_key_map:
  "sort_key f (map g xs) = map g (sort_key (\<lambda>x. f (g x)) xs)"
  by (induction xs) (auto simp: insort_key_map)

lemma distinct_first_seen: "distinct (first_seen xs)"
  by (induction xs) (auto simp: distinct_removeAll)

lemma set_first_seen: "set (first_seen xs) = set xs"
  by (induction xs) auto


lemma build_countries: "countries (build es) = first_seen (names_of es)"
  using extract_countries [of es "[]" "[]"]
  by (simp add: build_def case_prod_beta)

lemma build_links: "links (build es) = map (\<lambda>(s, t). \<lparr>source = s, target = t\<rparr>) es"
  using extract_links [of es "[]" "[]"]
  by (simp add: build_def case_prod_beta)

lemma build_nodes:
  "nodes (build es) =
     sort_key connections_key (map (new_node (links (build es))) (countries (build es)))"
  by (simp add: build_def case_prod_beta js_sort_sort_key)

lemma links_unchanged: "map (\<lambda>l. (source l, target l)) (links (build es)) = es"
  by (simp add: build_links case_prod_beta comp_def)

lemma build_node_ids:
  "map node_id (nodes (build es)) =
     sort_key (\<lambda>c. - int (length (neighbors_of (links (build es)) c))) (first_seen (names_of es))"
proof -
  have "map node_id (map (new_node ls) cs) = cs" for ls cs
    by (induction cs) (simp_all add: new_node_def)
  then show ?thesis
    by (simp add: build_nodes sort_key_map build_countries connections_key_def new_node_def)
qed

lemma build_nodes_sorted:
  "sorted_wrt (\<lambda>a b. length (neighbors b) \<le> length (neighbors a)) (nodes (build es))"
proof -
  have "sorted (map connections_key (nodes (build es)))"
    by (simp add: build_nodes)
  then show ?thesis
    by (simp add: sorted_map connections_key_def)
qed

text \<open>
  C2, as the code has it. For every list of entries: the set \<open>countries\<close> holds the
  unique country names in first-seen order; the array \<open>nodes\<close> holds one node for each
  of these names and no other, not in first-seen order but with the most connected
  node first, nodes with equally many neighbors staying in first-seen order (the
  first-seen list, stably sorted by descending neighbor count); and the links are the
  entries, in the same order and with the same content.
\<close>

theorem build_nodes_by_connections:
  "countries (build es) = first_seen (names_of es) \<and>
   map node_id (nodes (build es)) =
     sort_key (\<lambda>c. - int (length (neighbors_of (links (build es)) c)))
       (first_seen (names_of es)) \<and>
   sorted_wrt (\<lambda>a b. length (neighbors b) \<le> length (neighbors a)) (nodes (build es)) \<and>
   distinct (map node_id (nodes (build es))) \<and>
   set (map node_id (nodes (build es))) = set (names_of es) \<and>
   map (\<lambda>l. (source l, target l)) (links (build es)) = es"
proof -
  have "distinct (map node_id (nodes (build es)))"
    unfolding build_node_ids by (simp add: distinct_first_seen)
  moreover have "set (map node_id (nodes (build es))) = set (names_of es)"
    unfolding build_node_ids by (simp add: set_first_seen)
  ultimately show ?thesis
    using build_countries build_node_ids build_nodes_sorted links_unchanged by blast
qed

text \<open>
  The order of the nodes is not the first-seen order: on \<open>[["A","B"],["B","C"]]\<close> the
  names are first seen as A, B, C, and the array \<open>nodes\<close> holds B, A, C, since B has
  two neighbors and the others one.
\<close>

theorem node_order_counterexample:
  "map node_id (nodes (build [(''A'', ''B''), (''B'', ''C'')])) = [''B'', ''A'', ''C''] \<and>
   first_seen (names_of [(''A'', ''B''), (''B'', ''C'')]) = [''A'', ''B'', ''C''] \<and>
   map node_id (nodes (build [(''A'', ''B''), (''B'', ''C'')]))
     \<noteq> first_seen (names_of [(''A'', ''B''), (''B'', ''C'')])"
  by (simp add: build_def set_add_def new_node_def neighbors_of_def by_connections_def
      names_of_def)

section \<open>Neighbor lists\<close>

lemma neighbors_of_Nil: "neighbors_of [] v = []"
  by (simp add: neighbors_of_def)

lemma neighbors_of_Cons:
  "neighbors_of (\<lparr>source = s, target = t\<rparr> # ls) v =
     (if s = v then t # neighbors_of ls v
      else if t = v then s # neighbors_of ls v
      else neighbors_of ls v)"
  by (simp add: neighbors_of_def)

lemma neighbors_of_count:
  "count_list (neighbors_of (map (\<lambda>(s, t). \<lparr>source = s, target = t\<rparr>) es) v) u =
     count_list es (v, u) + (if u = v then 0 else count_list es (u, v))"
proof (induction es)
  case Nil
  show ?case by (simp add: neighbors_of_Nil)
next
  case (Cons e es)
  obtain s t where e: "e = (s, t)" by (cases e)
  show ?case
  proof (cases "u = v")
    case True
    with Cons.IH show ?thesis
      by (simp add: e neighbors_of_Cons)
  next
    case False
    with Cons.IH show ?thesis
      by (simp add: e neighbors_of_Cons)
  qed
qed

lemma neighbors_of_set:
  "u \<in> set (neighbors_of (map (\<lambda>(s, t). \<lparr>source = s, target = t\<rparr>) es) v) \<longleftrightarrow>
     (u, v) \<in> set es \<or> (v, u) \<in> set es"
proof (induction es)
  case Nil
  show ?case by (simp add: neighbors_of_Nil)
next
  case (Cons e es)
  obtain s t where e: "e = (s, t)" by (cases e)
  from Cons.IH show ?case
    by (auto simp: e neighbors_of_Cons)
qed

lemma build_node_neighbors:
  assumes "d \<in> set (nodes (build es))"
  shows "neighbors d = neighbors_of (links (build es)) (node_id d)"
  using assms by (auto simp: build_nodes new_node_def)

text \<open>
  C3, as the code has it. For every list of entries and every node \<open>d\<close> of the build,
  the pairs are undirected for the neighbor list: \<open>u\<close> is among the neighbors of \<open>d\<close>
  exactly when the entries hold \<open>(u, d)\<close> or \<open>(d, u)\<close>. The list is not deduplicated:
  \<open>u\<close> stands in it once for every entry \<open>(d, u)\<close> and once for every entry \<open>(u, d)\<close>
  (an entry \<open>(d, d)\<close> counts once), so a pair that the entries hold together with its
  mirror gives the neighbor twice.
\<close>

theorem neighbors_undirected_counted:
  "\<forall>d \<in> set (nodes (build es)). \<forall>u.
     (u \<in> set (neighbors d) \<longleftrightarrow> (u, node_id d) \<in> set es \<or> (node_id d, u) \<in> set es) \<and>
     count_list (neighbors d) u =
       count_list es (node_id d, u) + (if u = node_id d then 0 else count_list es (u, node_id d))"
  by (simp add: build_node_neighbors build_links neighbors_of_set neighbors_of_count)

text \<open>
  On \<open>[["A","B"],["B","A"]]\<close> the node A is built with the neighbors \<open>["B","B"]\<close>: one
  for each of the two entries.
\<close>

theorem neighbors_undirected_counted_witness:
  "new_node [] ''A'' \<lparr>neighbors := [''B'', ''B'']\<rparr>
     \<in> set (nodes (build [(''A'', ''B''), (''B'', ''A'')])) \<and>
   ''B'' \<in> set [''B'', ''B''] \<and>
   count_list [''B'', ''B''] ''B'' = 2 \<and>
   count_list [(''A'', ''B''), (''B'', ''A'')] (''A'', ''B'')
     + count_list [(''A'', ''B''), (''B'', ''A'')] (''B'', ''A'') = 2"
proof -
  have d: "new_node [] ''A'' \<lparr>neighbors := [''B'', ''B'']\<rparr>
      \<in> set (nodes (build [(''A'', ''B''), (''B'', ''A'')]))"
    by (simp add: build_def set_add_def new_node_def neighbors_of_def by_connections_def)
  from neighbors_undirected_counted [of "[(''A'', ''B''), (''B'', ''A'')]"] d
  have "count_list (neighbors (new_node [] ''A'' \<lparr>neighbors := [''B'', ''B'']\<rparr>)) ''B'' =
      count_list [(''A'', ''B''), (''B'', ''A'')]
        (node_id (new_node [] ''A'' \<lparr>neighbors := [''B'', ''B'']\<rparr>), ''B'')
      + (if ''B'' = node_id (new_node [] ''A'' \<lparr>neighbors := [''B'', ''B'']\<rparr>) then 0
         else count_list [(''A'', ''B''), (''B'', ''A'')]
           (''B'', node_id (new_node [] ''A'' \<lparr>neighbors := [''B'', ''B'']\<rparr>)))"
    by blast
  with d show ?thesis by (simp add: new_node_def)
qed

text \<open>
  The neighbor list can hold a neighbor twice: on \<open>[["A","B"],["B","A"]]\<close> the first
  node is A and its neighbors are \<open>["B","B"]\<close>.
\<close>

theorem mirrored_pair_counterexample:
  "node_id (hd (nodes (build [(''A'', ''B''), (''B'', ''A'')]))) = ''A'' \<and>
   neighbors (hd (nodes (build [(''A'', ''B''), (''B'', ''A'')]))) = [''B'', ''B''] \<and>
   \<not> distinct (neighbors (hd (nodes (build [(''A'', ''B''), (''B'', ''A'')]))))"
  by (simp add: build_def set_add_def new_node_def neighbors_of_def by_connections_def)


section \<open>Determinism of the build\<close>

lemma by_connections_le: "by_connections a b \<le> 0 \<longleftrightarrow> connections_key a \<le> connections_key b"
  by (simp add: by_connections_def connections_key_def)

lemma by_connections_eq: "by_connections a b = 0 \<longleftrightarrow> connections_key a = connections_key b"
  by (auto simp: by_connections_def connections_key_def)

text \<open>The promise determines the sorted array.\<close>

lemma js_sort_result_unique:
  assumes "js_sort_result by_connections xs ys"
  shows "ys = js_sort by_connections xs"
proof -
  from assms have m: "mset ys = mset xs"
    unfolding js_sort_result_def by (rule conjunct1)
  from assms have "sorted_wrt (\<lambda>a b. by_connections a b \<le> 0) ys"
    unfolding js_sort_result_def by blast
  then have s: "sorted (map connections_key ys)"
    by (simp add: sorted_map by_connections_le)
  from assms have "\<forall>a. filter (\<lambda>b. by_connections a b = 0) ys = filter (\<lambda>b. by_connections a b = 0) xs"
    unfolding js_sort_result_def by blast
  then have st: "filter (\<lambda>x. connections_key k = connections_key x) ys =
       filter (\<lambda>x. connections_key k = connections_key x) xs" for k
    by (simp add: by_connections_eq)
  have "sort_key connections_key xs = ys"
  proof (rule properties_for_sort_key)
    show "mset ys = mset xs" by (rule m)
    show "sorted (map connections_key ys)" by (rule s)
    show "filter (\<lambda>x. connections_key k = connections_key x) ys =
       filter (\<lambda>x. connections_key k = connections_key x) xs" for k
      by (rule st)
  qed
  then show ?thesis by (simp add: js_sort_sort_key)
qed

text \<open>The insertion sort of the model keeps the promise.\<close>

lemma js_sort_result_js_sort: "js_sort_result by_connections xs (js_sort by_connections xs)"
proof -
  let ?ys = "sort_key connections_key xs"
  have m: "mset ?ys = mset xs" by simp
  have "sorted (map connections_key ?ys)" by (rule sorted_sort_key)
  then have s: "sorted_wrt (\<lambda>a b. by_connections a b \<le> 0) ?ys"
    unfolding sorted_map by_connections_le .
  have st: "filter (\<lambda>b. by_connections a b = 0) ?ys = filter (\<lambda>b. by_connections a b = 0) xs"
    for a
  proof -
    have "(\<lambda>b. by_connections a b = 0) = (\<lambda>b. connections_key b = connections_key a)"
      by (auto simp: by_connections_eq)
    then show ?thesis
      by (simp only: sort_key_stable)
  qed
  from m s st show ?thesis
    unfolding js_sort_result_def js_sort_sort_key by blast
qed

text \<open>So \<open>build\<close> is a run, and every run yields what \<open>build\<close> computes.\<close>

lemma builds_build: "builds es (build es)"
  by (simp add: builds_def build_def case_prod_beta js_sort_result_js_sort)

lemma builds_unique:
  assumes "builds es g"
  shows "countries g = countries (build es) \<and> links g = links (build es) \<and>
    nodes g = nodes (build es)"
proof -
  obtain cs ls where e: "extract_entries es ([], []) = (cs, ls)"
    by (cases "extract_entries es ([], [])")
  from assms e have "countries g = cs \<and> links g = ls \<and>
      js_sort_result by_connections (map (new_node ls) cs) (nodes g)"
    unfolding builds_def by simp
  then have "countries g = cs" and "links g = ls"
    and "js_sort_result by_connections (map (new_node ls) cs) (nodes g)"
    by blast+
  moreover from this(3) have "nodes g = js_sort by_connections (map (new_node ls) cs)"
    by (rule js_sort_result_unique)
  ultimately show ?thesis
    by (simp add: build_def e)
qed

text \<open>
  C9. The build is deterministic. Its only step that an engine may carry out in more
  than one way is the sort, and the promise of a stable sort leaves one result: two
  runs on the same entries yield the same set of countries, the same nodes in the
  same order, with the same neighbor lists, and the same links.
\<close>

theorem build_deterministic:
  assumes "builds es g" and "builds es g'"
  shows "countries g = countries g' \<and> nodes g = nodes g' \<and>
    map neighbors (nodes g) = map neighbors (nodes g') \<and> links g = links g'"
  using builds_unique [OF assms(1)] builds_unique [OF assms(2)] by simp

text \<open>
  On \<open>[["A","B"],["B","C"]]\<close>: what \<open>build\<close> computes is a run, the model written out
  is a run, and their nodes are the same.
\<close>

theorem build_deterministic_witness:
  "builds [(''A'', ''B''), (''B'', ''C'')] (build [(''A'', ''B''), (''B'', ''C'')]) \<and>
   builds [(''A'', ''B''), (''B'', ''C'')]
     \<lparr>countries = [''A'', ''B'', ''C''],
      links = [\<lparr>source = ''A'', target = ''B''\<rparr>, \<lparr>source = ''B'', target = ''C''\<rparr>],
      nodes = [new_node [] ''B'' \<lparr>neighbors := [''A'', ''C'']\<rparr>,
               new_node [] ''A'' \<lparr>neighbors := [''B'']\<rparr>,
               new_node [] ''C'' \<lparr>neighbors := [''B'']\<rparr>]\<rparr> \<and>
   nodes (build [(''A'', ''B''), (''B'', ''C'')]) =
     [new_node [] ''B'' \<lparr>neighbors := [''A'', ''C'']\<rparr>,
      new_node [] ''A'' \<lparr>neighbors := [''B'']\<rparr>,
      new_node [] ''C'' \<lparr>neighbors := [''B'']\<rparr>]"
proof -
  let ?E = "[(''A'', ''B''), (''B'', ''C'')]"
  let ?g = "\<lparr>countries = [''A'', ''B'', ''C''],
      links = [\<lparr>source = ''A'', target = ''B''\<rparr>, \<lparr>source = ''B'', target = ''C''\<rparr>],
      nodes = [new_node [] ''B'' \<lparr>neighbors := [''A'', ''C'']\<rparr>,
               new_node [] ''A'' \<lparr>neighbors := [''B'']\<rparr>,
               new_node [] ''C'' \<lparr>neighbors := [''B'']\<rparr>]\<rparr>"
  have eq: "build ?E = ?g"
    by (simp add: build_def set_add_def new_node_def neighbors_of_def by_connections_def)
  have b1: "builds ?E (build ?E)" by (rule builds_build)
  have b2: "builds ?E ?g" using b1 by (simp only: eq)
  from build_deterministic [OF b1 b2] b1 b2 show ?thesis by simp
qed


section \<open>Saturation, bounds and monotonicity of the styling\<close>

text \<open>
  C6. The styling saturates: from 10 neighbors on, the radius of the circle (and the
  radius under the pointer) is the one at 10; from 20 neighbors on, the font size of
  the label is the one at 20; from 40 neighbors on, the fill is the one at 40,
  whatever the color scale is.
\<close>

theorem styling_saturates:
  "(10 \<le> n \<longrightarrow> circle_r n = circle_r 10 \<and> mouseover_r n = mouseover_r 10) \<and>
   (20 \<le> n \<longrightarrow> font_size n = font_size 20) \<and>
   (40 \<le> n \<longrightarrow> circle_fill colorScale n = circle_fill colorScale 40)"
  by (simp add: circle_r_def mouseover_r_def font_size_def circle_fill_def min_def)

text \<open>At 45 neighbors: radius 9 (13 under the pointer), font size 12, the fill of 40.\<close>

theorem styling_saturates_witness:
  "(10::nat) \<le> 45 \<and> (20::nat) \<le> 45 \<and> (40::nat) \<le> 45 \<and>
   circle_r 45 = circle_r 10 \<and> circle_r 45 = 9 \<and>
   mouseover_r 45 = mouseover_r 10 \<and> mouseover_r 45 = 13 \<and>
   font_size 45 = font_size 20 \<and> font_size 45 = 12 \<and>
   circle_fill (\<lambda>v. v) 45 = circle_fill (\<lambda>v. v) 40 \<and> circle_fill (\<lambda>v. v) 45 = 40"
  using styling_saturates [of 45 "\<lambda>v. v"]
  by (simp add: circle_r_def mouseover_r_def font_size_def circle_fill_def)

text \<open>
  C10. For every neighbor count \<open>n\<close> the radius \<open>4 + min(n/2, 5)\<close> lies in \<open>[4, 9]\<close>,
  the radius under the pointer \<open>8 + min(n/2, 5)\<close> in \<open>[8, 13]\<close> and the font size
  \<open>10 + min(n/10, 2)\<close> in \<open>[10, 12]\<close>; and each of the three is monotone: its value
  at a count is at most its value at any larger count.
\<close>

theorem styling_monotone_bounded:
  "4 \<le> circle_r n \<and> circle_r n \<le> 9 \<and>
   8 \<le> mouseover_r n \<and> mouseover_r n \<le> 13 \<and>
   10 \<le> font_size n \<and> font_size n \<le> 12 \<and>
   (m \<le> n \<longrightarrow>
      circle_r m \<le> circle_r n \<and> mouseover_r m \<le> mouseover_r n \<and>
      font_size m \<le> font_size n)"
  by (simp add: circle_r_def mouseover_r_def font_size_def min_def)

text \<open>At 3 and 7 neighbors: radii 5.5 and 7.5, font sizes 10.3 and 10.7.\<close>

theorem styling_monotone_bounded_witness:
  "(3::nat) \<le> 7 \<and> circle_r 3 \<le> circle_r 7 \<and> mouseover_r 3 \<le> mouseover_r 7 \<and>
   font_size 3 \<le> font_size 7 \<and> circle_r 3 = 11 / 2 \<and> circle_r 7 = 15 / 2 \<and>
   font_size 3 = 103 / 10 \<and> font_size 7 = 107 / 10"
  using styling_monotone_bounded [of 7 3]
  by (simp add: circle_r_def mouseover_r_def font_size_def)

section \<open>The notification of a click\<close>

lemma decimal_value_append:
  "decimal_value (ds @ [c]) = 10 * decimal_value ds + (of_char c - 48)"
  by (simp add: decimal_value_def)

lemma decimal_value_string_of_nat: "decimal_value (string_of_nat n) = n"
proof (induction n rule: string_of_nat.induct)
  case (1 n)
  show ?case
  proof (cases "n < 10")
    case True
    then show ?thesis
      by (simp add: string_of_nat.simps [of n] decimal_value_def digit_char_def)
  next
    case False
    with "1.IH" have "decimal_value (string_of_nat (n div 10)) = n div 10" by simp
    moreover have "of_char (digit_char (n mod 10)) - 48 = n mod 10"
      by (simp add: digit_char_def)
    ultimately show ?thesis
      using False by (simp add: string_of_nat.simps [of n] decimal_value_append)
  qed
qed


text \<open>
  C5. For every node, the click emits a notification whose title holds the node's
  identity and its neighbor count (as the decimal numeral that reads back as the
  count). The description lists the first \<open>min(5, count)\<close> neighbor names, joined by
  a comma and a space: with at most 5 neighbors it is the list of all of them and
  nothing else; with more than 5 it is the list of the first five followed by the
  overflow suffix, which reports \<open>count - 5\<close>.
\<close>

theorem click_notification:
  "title (click d) =
     node_id d @ '' has borders with '' @ string_of_nat (length (neighbors d)) @ '' countries'' \<and>
   decimal_value (string_of_nat (length (neighbors d))) = length (neighbors d) \<and>
   length (take 5 (neighbors d)) = min 5 (length (neighbors d)) \<and>
   (length (neighbors d) \<le> 5 \<longrightarrow>
      description (click d) = array_join '', '' (neighbors d)) \<and>
   (5 < length (neighbors d) \<longrightarrow>
      description (click d) =
        array_join '', '' (take 5 (neighbors d))
        @ '' and '' @ string_of_nat (length (neighbors d) - 5) @ '' more...'' \<and>
      decimal_value (string_of_nat (length (neighbors d) - 5)) = length (neighbors d) - 5)"
  by (simp add: click_def decimal_value_string_of_nat min_def)

text \<open>
  A node with seven neighbors (the overflow suffix reports 2) and a node with two (no
  suffix).
\<close>

theorem click_notification_witness:
  "5 < length (neighbors (new_node [] ''A''
         \<lparr>neighbors := [''B'', ''C'', ''D'', ''E'', ''F'', ''G'', ''H'']\<rparr>)) \<and>
   title (click (new_node [] ''A''
         \<lparr>neighbors := [''B'', ''C'', ''D'', ''E'', ''F'', ''G'', ''H'']\<rparr>)) =
     ''A has borders with 7 countries'' \<and>
   description (click (new_node [] ''A''
         \<lparr>neighbors := [''B'', ''C'', ''D'', ''E'', ''F'', ''G'', ''H'']\<rparr>)) =
     ''B, C, D, E, F and 2 more...'' \<and>
   length (neighbors (new_node [] ''B'' \<lparr>neighbors := [''A'', ''C'']\<rparr>)) \<le> 5 \<and>
   title (click (new_node [] ''B'' \<lparr>neighbors := [''A'', ''C'']\<rparr>)) =
     ''B has borders with 2 countries'' \<and>
   description (click (new_node [] ''B'' \<lparr>neighbors := [''A'', ''C'']\<rparr>)) = ''A, C''"
proof -
  let ?a = "new_node [] ''A'' \<lparr>neighbors := [''B'', ''C'', ''D'', ''E'', ''F'', ''G'', ''H'']\<rparr>"
  let ?b = "new_node [] ''B'' \<lparr>neighbors := [''A'', ''C'']\<rparr>"
  have na: "5 < length (neighbors ?a)" by (simp add: new_node_def)
  have nb: "length (neighbors ?b) \<le> 5" by (simp add: new_node_def)
  have ta: "node_id ?a @ '' has borders with '' @ string_of_nat (length (neighbors ?a))
      @ '' countries'' = ''A has borders with 7 countries''"
    by code_simp
  have da: "array_join '', '' (take 5 (neighbors ?a))
      @ '' and '' @ string_of_nat (length (neighbors ?a) - 5) @ '' more...''
      = ''B, C, D, E, F and 2 more...''"
    by code_simp
  have tb: "node_id ?b @ '' has borders with '' @ string_of_nat (length (neighbors ?b))
      @ '' countries'' = ''B has borders with 2 countries''"
    by code_simp
  have db: "array_join '', '' (neighbors ?b) = ''A, C''"
    by code_simp
  from click_notification [of ?a] na
  have "title (click ?a) = ''A has borders with 7 countries''"
    and "description (click ?a) = ''B, C, D, E, F and 2 more...''"
    unfolding ta da by blast+
  moreover from click_notification [of ?b] nb
  have "title (click ?b) = ''B has borders with 2 countries''"
    and "description (click ?b) = ''A, C''"
    unfolding tb db by blast+
  ultimately show ?thesis using na nb by blast
qed

section \<open>The drag state machine\<close>

lemma dragging_snoc:
  "dragging down (moves @ [e]) s = dragged e (dragging down moves s)"
  by (simp add: dragging_def)

text \<open>While dragging, only the pin of the node changes.\<close>

lemma dragging_position:
  "node_x (snd (dragging down moves s)) = node_x (snd s) \<and>
   node_y (snd (dragging down moves s)) = node_y (snd s) \<and>
   node_id (snd (dragging down moves s)) = node_id (snd s) \<and>
   neighbors (snd (dragging down moves s)) = neighbors (snd s)"
proof (induction moves rule: rev_induct)
  case Nil
  show ?case by (simp add: dragging_def dragstarted_def case_prod_beta)
next
  case (snoc e moves)
  then show ?case by (simp add: dragging_snoc dragged_def case_prod_beta)
qed

text \<open>
  What the handlers leave of the simulation while dragging: a start event with no
  other gesture active has set \<open>alphaTarget\<close> to 0.3 and restarted the timer, and the
  drag events change nothing of it.
\<close>

lemma dragging_simulation:
  "fst (dragging down moves (simulation, d)) =
     (if active down = 0 then simulation\<lparr>alphaTarget := 0.3, running := True\<rparr>
      else simulation)"
proof (induction moves rule: rev_induct)
  case Nil
  show ?case by (simp add: dragging_def dragstarted_def)
next
  case (snoc e moves)
  then show ?case by (simp add: dragging_snoc dragged_def case_prod_beta)
qed

lemma dragging_pin:
  "node_fx (snd (dragging down (moves @ [move]) s)) = Some (event_x move) \<and>
   node_fy (snd (dragging down (moves @ [move]) s)) = Some (event_y move)"
  by (simp add: dragging_snoc dragged_def case_prod_beta)

text \<open>
  C8. The drag state machine. On the start event (pointer-down over a node) the pin
  \<open>(fx, fy)\<close> is set to the node's current position \<open>(x, y)\<close>; after each drag event
  (pointer-move) the pin is the coordinate \<open>(event.x, event.y)\<close> of that event; after
  the end event (pointer-up) the pin is cleared, \<open>fx = fy = null\<close>. The handlers never
  write the position, the identity or the neighbors of the node: moving it is left to
  the simulation. Of the simulation, a start event with no other gesture active sets
  \<open>alphaTarget\<close> to 0.3 and restarts the timer; an end event with none active sets
  \<open>alphaTarget\<close> back to 0; no handler stops the timer or writes \<open>alpha\<close>, so after the
  release the simulation still runs and \<open>alpha\<close> decays as the ticks have it. So the
  node resumes free motion: while it is dragged, a tick holds it at the pin whatever
  its velocity; after the release, the next tick moves it away from the point of
  release by its velocity, instead of leaving it frozen there.
\<close>

theorem drag_pins_and_releases:
  "node_fx (snd (drag Start down (simulation, d))) = node_x d \<and>
   node_fy (snd (drag Start down (simulation, d))) = node_y d \<and>
   node_fx (snd (dragging down (moves @ [move]) (simulation, d))) = Some (event_x move) \<and>
   node_fy (snd (dragging down (moves @ [move]) (simulation, d))) = Some (event_y move) \<and>
   node_fx (snd (gesture down moves up (simulation, d))) = None \<and>
   node_fy (snd (gesture down moves up (simulation, d))) = None \<and>
   node_x (snd (gesture down moves up (simulation, d))) = node_x d \<and>
   node_y (snd (gesture down moves up (simulation, d))) = node_y d \<and>
   node_id (snd (gesture down moves up (simulation, d))) = node_id d \<and>
   neighbors (snd (gesture down moves up (simulation, d))) = neighbors d \<and>
   alpha (fst (gesture down moves up (simulation, d))) = alpha simulation \<and>
   (active down = 0 \<longrightarrow>
      running (fst (dragging down moves (simulation, d))) \<and>
      alphaTarget (fst (dragging down moves (simulation, d))) = 0.3 \<and>
      running (fst (gesture down moves up (simulation, d))) \<and>
      (active up = 0 \<longrightarrow> alphaTarget (fst (gesture down moves up (simulation, d))) = 0) \<and>
      node_x (snd (tick w (dragging down (moves @ [move]) (simulation, d))))
        = Some (event_x move) \<and>
      node_y (snd (tick w (dragging down (moves @ [move]) (simulation, d))))
        = Some (event_y move) \<and>
      node_x (snd (tick v (gesture down moves up (simulation, d))))
        = map_option (\<lambda>x. x + fst v) (node_x d) \<and>
      node_y (snd (tick v (gesture down moves up (simulation, d))))
        = map_option (\<lambda>y. y + snd v) (node_y d) \<and>
      node_x (snd (tick v (drag End up
          (tick w (dragging down (moves @ [move]) (simulation, d))))))
        = Some (event_x move + fst v) \<and>
      node_y (snd (tick v (drag End up
          (tick w (dragging down (moves @ [move]) (simulation, d))))))
        = Some (event_y move + snd v))"
proof -
  obtain s1 d1 where g: "dragging down moves (simulation, d) = (s1, d1)"
    by (cases "dragging down moves (simulation, d)")
  obtain s2 d2 where h: "dragging down (moves @ [move]) (simulation, d) = (s2, d2)"
    by (cases "dragging down (moves @ [move]) (simulation, d)")
  from dragging_position [of down moves "(simulation, d)"] g
  have p1: "node_x d1 = node_x d" "node_y d1 = node_y d" "node_id d1 = node_id d"
    "neighbors d1 = neighbors d"
    by simp_all
  from dragging_simulation [of down moves simulation d] g
  have s1: "s1 = (if active down = 0 then simulation\<lparr>alphaTarget := 0.3, running := True\<rparr>
      else simulation)"
    by simp
  from dragging_simulation [of down "moves @ [move]" simulation d] h
  have s2: "s2 = (if active down = 0 then simulation\<lparr>alphaTarget := 0.3, running := True\<rparr>
      else simulation)"
    by simp
  from dragging_pin [of down moves move "(simulation, d)"] h
  have p2: "node_fx d2 = Some (event_x move)" "node_fy d2 = Some (event_y move)"
    by simp_all
  have start: "node_fx (snd (drag Start down (simulation, d))) = node_x d \<and>
      node_fy (snd (drag Start down (simulation, d))) = node_y d"
    by (simp add: dragstarted_def)
  show ?thesis
    using start p1 p2
    by (simp add: gesture_def g h s1 s2 dragended_def tick_def integrate_def)
qed

text \<open>
  The simulation has settled and its timer has stopped. The node A at \<open>(10, 20)\<close> is
  pressed, dragged over \<open>(30, 40)\<close> to \<open>(50, 50)\<close> and released: it is pinned at
  \<open>(10, 20)\<close>, then at \<open>(50, 50)\<close>, where a tick holds it against the velocity \<open>(7, 7)\<close>,
  then not pinned; the simulation runs again, and the tick after the release, with
  the velocity \<open>(1, - 2)\<close>, moves the node to \<open>(51, 48)\<close>.
\<close>

theorem drag_pins_and_releases_witness:
  "active \<lparr>active = 0, event_x = 10, event_y = 20\<rparr> = 0 \<and>
   active \<lparr>active = 0, event_x = 50, event_y = 50\<rparr> = 0 \<and>
   node_fx (snd (drag Start \<lparr>active = 0, event_x = 10, event_y = 20\<rparr>
      (\<lparr>sim_nodes = [0], charge = - 120, alpha = 0.0005, alphaTarget = 0, alphaDecay = 0.01,
         running = False\<rparr>,
       new_node [] ''A'' \<lparr>node_x := Some 10, node_y := Some 20\<rparr>))) = Some 10 \<and>
   node_fx (snd (dragging \<lparr>active = 0, event_x = 10, event_y = 20\<rparr>
      ([\<lparr>active = 1, event_x = 30, event_y = 40\<rparr>] @ [\<lparr>active = 1, event_x = 50, event_y = 50\<rparr>])
      (\<lparr>sim_nodes = [0], charge = - 120, alpha = 0.0005, alphaTarget = 0, alphaDecay = 0.01,
         running = False\<rparr>,
       new_node [] ''A'' \<lparr>node_x := Some 10, node_y := Some 20\<rparr>))) = Some 50 \<and>
   node_fx (snd (gesture \<lparr>active = 0, event_x = 10, event_y = 20\<rparr>
      [\<lparr>active = 1, event_x = 30, event_y = 40\<rparr>] \<lparr>active = 0, event_x = 50, event_y = 50\<rparr>
      (\<lparr>sim_nodes = [0], charge = - 120, alpha = 0.0005, alphaTarget = 0, alphaDecay = 0.01,
         running = False\<rparr>,
       new_node [] ''A'' \<lparr>node_x := Some 10, node_y := Some 20\<rparr>))) = None \<and>
   fst (gesture \<lparr>active = 0, event_x = 10, event_y = 20\<rparr>
      [\<lparr>active = 1, event_x = 30, event_y = 40\<rparr>] \<lparr>active = 0, event_x = 50, event_y = 50\<rparr>
      (\<lparr>sim_nodes = [0], charge = - 120, alpha = 0.0005, alphaTarget = 0, alphaDecay = 0.01,
         running = False\<rparr>,
       new_node [] ''A'' \<lparr>node_x := Some 10, node_y := Some 20\<rparr>)) =
     \<lparr>sim_nodes = [0], charge = - 120, alpha = 0.0005, alphaTarget = 0, alphaDecay = 0.01,
        running = True\<rparr> \<and>
   node_x (snd (tick (7, 7) (dragging \<lparr>active = 0, event_x = 10, event_y = 20\<rparr>
      ([\<lparr>active = 1, event_x = 30, event_y = 40\<rparr>] @ [\<lparr>active = 1, event_x = 50, event_y = 50\<rparr>])
      (\<lparr>sim_nodes = [0], charge = - 120, alpha = 0.0005, alphaTarget = 0, alphaDecay = 0.01,
         running = False\<rparr>,
       new_node [] ''A'' \<lparr>node_x := Some 10, node_y := Some 20\<rparr>)))) = Some 50 \<and>
   node_x (snd (tick (1, - 2) (drag End \<lparr>active = 0, event_x = 50, event_y = 50\<rparr>
      (tick (7, 7) (dragging \<lparr>active = 0, event_x = 10, event_y = 20\<rparr>
        ([\<lparr>active = 1, event_x = 30, event_y = 40\<rparr>] @ [\<lparr>active = 1, event_x = 50, event_y = 50\<rparr>])
        (\<lparr>sim_nodes = [0], charge = - 120, alpha = 0.0005, alphaTarget = 0, alphaDecay = 0.01,
           running = False\<rparr>,
         new_node [] ''A'' \<lparr>node_x := Some 10, node_y := Some 20\<rparr>)))))) = Some 51 \<and>
   node_y (snd (tick (1, - 2) (drag End \<lparr>active = 0, event_x = 50, event_y = 50\<rparr>
      (tick (7, 7) (dragging \<lparr>active = 0, event_x = 10, event_y = 20\<rparr>
        ([\<lparr>active = 1, event_x = 30, event_y = 40\<rparr>] @ [\<lparr>active = 1, event_x = 50, event_y = 50\<rparr>])
        (\<lparr>sim_nodes = [0], charge = - 120, alpha = 0.0005, alphaTarget = 0, alphaDecay = 0.01,
           running = False\<rparr>,
         new_node [] ''A'' \<lparr>node_x := Some 10, node_y := Some 20\<rparr>)))))) = Some 48"
  using drag_pins_and_releases
    [of "\<lparr>active = 0, event_x = 10, event_y = 20\<rparr>"
      "\<lparr>sim_nodes = [0], charge = - 120, alpha = 0.0005, alphaTarget = 0, alphaDecay = 0.01,
         running = False\<rparr>"
      "new_node [] ''A'' \<lparr>node_x := Some 10, node_y := Some 20\<rparr>"
      "[\<lparr>active = 1, event_x = 30, event_y = 40\<rparr>]"
      "\<lparr>active = 1, event_x = 50, event_y = 50\<rparr>"
      "\<lparr>active = 0, event_x = 50, event_y = 50\<rparr>"
      "(7, 7)" "(1, - 2)"]
  by (simp add: new_node_def gesture_def dragging_def dragstarted_def dragged_def
      dragended_def tick_def integrate_def)

section \<open>A change of the repulsion strength\<close>

text \<open>The component mounted on one border, with the default strength 120.\<close>

lemma mount_AB:
  "mount place [(''A'', ''B'')] 120 =
     \<lparr>heap = [new_node [] ''A'' \<lparr>neighbors := [''B''],
                node_x := Some (fst (place 0)), node_y := Some (snd (place 0))\<rparr>,
              new_node [] ''B'' \<lparr>neighbors := [''A''],
                node_x := Some (fst (place 1)), node_y := Some (snd (place 1))\<rparr>],
      simulationRef = Some \<lparr>sim_nodes = [0, 1], charge = - 120, alpha = 0.3, alphaTarget = 0,
        alphaDecay = 0.01, running = True\<rparr>,
      deps = 120\<rparr>"
  by (simp add: mount_def build_effect_def strength_effect_def build_def set_add_def
      new_node_def neighbors_of_def by_connections_def upt_rec)

text \<open>
  C1 says that a change of the strength only replaces the charge and reheats, the
  node and edge records staying the same objects. The second effect alone does that.
  But the first effect depends on \<open>forceStrength\<close> too, so the change builds the graph
  again: mounted on \<open>[["A","B"]]\<close> with strength 120, the simulation moves the node
  objects 0 and 1; after the change to 130 it moves the new objects 2 and 3, while the
  second effect alone would have kept 0 and 1. A pin that node A had at \<open>(50, 50)\<close>
  when the strength changed is not on the node A of the new simulation; the second
  effect alone would have kept it. And a node that a tick had moved from where d3
  first placed it is back at that first place after the change: the layout starts
  again; the second effect alone would have left the node where it was.
\<close>

theorem strength_change_rebuilds:
  "map_option sim_nodes (simulationRef (mount place [(''A'', ''B'')] 120)) = Some [0, 1] \<and>
   map_option sim_nodes (simulationRef (rerender place [(''A'', ''B'')] 130 (mount place [(''A'', ''B'')] 120)))
     = Some [2, 3] \<and>
   map_option sim_nodes (simulationRef (strength_effect 130 (mount place [(''A'', ''B'')] 120)))
     = Some [0, 1] \<and>
   map (\<lambda>d. (node_id d, node_fx d, node_fy d))
     (simulated (on_node 0 (drag Drag \<lparr>active = 0, event_x = 50, event_y = 50\<rparr>)
        (mount place [(''A'', ''B'')] 120)))
     = [(''A'', Some 50, Some 50), (''B'', None, None)] \<and>
   map (\<lambda>d. (node_id d, node_fx d, node_fy d))
     (simulated (rerender place [(''A'', ''B'')] 130
        (on_node 0 (drag Drag \<lparr>active = 0, event_x = 50, event_y = 50\<rparr>)
           (mount place [(''A'', ''B'')] 120))))
     = [(''A'', None, None), (''B'', None, None)] \<and>
   map (\<lambda>d. (node_id d, node_fx d, node_fy d))
     (simulated (strength_effect 130
        (on_node 0 (drag Drag \<lparr>active = 0, event_x = 50, event_y = 50\<rparr>)
           (mount place [(''A'', ''B'')] 120))))
     = [(''A'', Some 50, Some 50), (''B'', None, None)] \<and>
   map (\<lambda>d. (node_id d, node_x d, node_y d))
     (simulated (on_node 0 (tick (5, 5)) (mount place [(''A'', ''B'')] 120)))
     = [(''A'', Some (fst (place 0) + 5), Some (snd (place 0) + 5)),
        (''B'', Some (fst (place 1)), Some (snd (place 1)))] \<and>
   map (\<lambda>d. (node_id d, node_x d, node_y d))
     (simulated (rerender place [(''A'', ''B'')] 130
        (on_node 0 (tick (5, 5)) (mount place [(''A'', ''B'')] 120))))
     = [(''A'', Some (fst (place 0)), Some (snd (place 0))),
        (''B'', Some (fst (place 1)), Some (snd (place 1)))] \<and>
   map (\<lambda>d. (node_id d, node_x d, node_y d))
     (simulated (strength_effect 130
        (on_node 0 (tick (5, 5)) (mount place [(''A'', ''B'')] 120))))
     = [(''A'', Some (fst (place 0) + 5), Some (snd (place 0) + 5)),
        (''B'', Some (fst (place 1)), Some (snd (place 1)))]"
  by (simp add: mount_AB rerender_def cleanup_def build_effect_def strength_effect_def
      on_node_def simulated_def dragged_def tick_def integrate_def build_def set_add_def
      new_node_def neighbors_of_def by_connections_def upt_rec)

section \<open>The scenario of two borders\<close>

text \<open>
  C4. On the entries \<open>[["A","B"],["B","C"]]\<close> the build yields the three nodes A, B
  and C (the array holds them as B, A, C: most connections first) and the two links
  of the input; A has the neighbors \<open>["B"]\<close>, B has \<open>["A","C"]\<close>, C has \<open>["B"]\<close>, and
  the radius of B's circle is strictly larger than those of A and of C.
\<close>

theorem build_AB_BC:
  "countries (build [(''A'', ''B''), (''B'', ''C'')]) = [''A'', ''B'', ''C''] \<and>
   links (build [(''A'', ''B''), (''B'', ''C'')]) =
     [\<lparr>source = ''A'', target = ''B''\<rparr>, \<lparr>source = ''B'', target = ''C''\<rparr>] \<and>
   map (\<lambda>d. (node_id d, neighbors d)) (nodes (build [(''A'', ''B''), (''B'', ''C'')])) =
     [(''B'', [''A'', ''C'']), (''A'', [''B'']), (''C'', [''B''])] \<and>
   map (\<lambda>d. (node_id d, node_r d)) (nodes (build [(''A'', ''B''), (''B'', ''C'')])) =
     [(''B'', 5), (''A'', 9 / 2), (''C'', 9 / 2)] \<and>
   (9 / 2 :: real) < 5"
  by (simp add: build_def set_add_def new_node_def neighbors_of_def by_connections_def
      node_r_def circle_r_def)

section \<open>The scale of the viewport\<close>

lemma clamp_scale_in_extent: "0.1 \<le> clamp_scale v \<and> clamp_scale v \<le> 4"
  by (simp add: clamp_scale_def scaleExtent_def)

lemma applyGesture_in_extent:
  assumes "scale_in_extent t"
  shows "scale_in_extent (applyGesture g t)"
proof (cases g)
  case (Pan dx dy)
  with assms show ?thesis by (simp add: scale_in_extent_def)
next
  case (Zoom factor px py)
  with clamp_scale_in_extent [of "zoom_k t * factor"] show ?thesis
    by (simp add: scale_in_extent_def scaleExtent_def Let_def)
qed

lemma view_after_in_extent:
  "scale_in_extent t \<Longrightarrow> scale_in_extent (view_after gestures t)"
  unfolding view_after_def
  by (induction gestures arbitrary: t) (simp_all add: applyGesture_in_extent)

text \<open>
  C7. After every sequence of pan and zoom gestures, from the identity or from any
  transform whose scale is within the extent, the scale is within the configured
  closed range \<open>[0.1, 4]\<close>. A zoom ends within the range whatever it starts from and
  whatever it asks for: a zoom that asks for a scale out of the range is clamped, not
  rejected (it ends at 4 when it asks for 4 or more, and at 0.1 when it asks for 0.1
  or less), and a zoom that asks for a scale within the range gets it. The statement
  is about gestures; the reset of the view is not one and is not covered.
\<close>

theorem scale_stays_in_extent:
  "0.1 \<le> zoom_k (view_after gestures zoomIdentity) \<and>
   zoom_k (view_after gestures zoomIdentity) \<le> 4 \<and>
   (0.1 \<le> zoom_k t \<and> zoom_k t \<le> 4 \<longrightarrow>
      0.1 \<le> zoom_k (view_after gestures t) \<and> zoom_k (view_after gestures t) \<le> 4) \<and>
   0.1 \<le> zoom_k (applyGesture (Zoom factor px py) t) \<and>
   zoom_k (applyGesture (Zoom factor px py) t) \<le> 4 \<and>
   (4 \<le> zoom_k t * factor \<longrightarrow> zoom_k (applyGesture (Zoom factor px py) t) = 4) \<and>
   (zoom_k t * factor \<le> 0.1 \<longrightarrow> zoom_k (applyGesture (Zoom factor px py) t) = 0.1) \<and>
   (0.1 \<le> zoom_k t * factor \<and> zoom_k t * factor \<le> 4 \<longrightarrow>
      zoom_k (applyGesture (Zoom factor px py) t) = zoom_k t * factor)"
proof -
  have "scale_in_extent zoomIdentity"
    by (simp add: scale_in_extent_def scaleExtent_def zoomIdentity_def)
  then have "scale_in_extent (view_after gestures zoomIdentity)"
    by (rule view_after_in_extent)
  moreover have "scale_in_extent (view_after gestures t)" if "scale_in_extent t"
    using that by (rule view_after_in_extent)
  ultimately show ?thesis
    by (simp add: scale_in_extent_def scaleExtent_def clamp_scale_def Let_def)
qed

text \<open>
  From the identity: a zoom by 100 ends at 4, a zoom by a thousandth at 0.1, a zoom
  by 2 at 2; from the scale 4, a zoom by 100 stays at 4; and five gestures in a row
  end at the scale 0.2.
\<close>

theorem scale_stays_in_extent_witness:
  "zoom_k (view_after
      [Zoom 100 5 5, Pan 3 (- 2), Zoom (1 / 8) 0 0, Zoom (1 / 1000) 7 7, Zoom 2 1 1]
      zoomIdentity) = 1 / 5 \<and>
   (4::real) \<le> zoom_k zoomIdentity * 100 \<and>
   zoom_k (applyGesture (Zoom 100 5 5) zoomIdentity) = 4 \<and>
   zoom_k zoomIdentity * (1 / 1000) \<le> (0.1::real) \<and>
   zoom_k (applyGesture (Zoom (1 / 1000) 7 7) zoomIdentity) = 0.1 \<and>
   (0.1::real) \<le> zoom_k zoomIdentity * 2 \<and> zoom_k zoomIdentity * 2 \<le> (4::real) \<and>
   zoom_k (applyGesture (Zoom 2 1 1) zoomIdentity) = 2 \<and>
   (0.1::real) \<le> zoom_k \<lparr>zoom_k = 4, zoom_x = 0, zoom_y = 0\<rparr> \<and>
   zoom_k \<lparr>zoom_k = 4, zoom_x = 0, zoom_y = 0\<rparr> \<le> (4::real) \<and>
   0.1 \<le> zoom_k (view_after [Zoom 100 5 5] \<lparr>zoom_k = 4, zoom_x = 0, zoom_y = 0\<rparr>) \<and>
   zoom_k (view_after [Zoom 100 5 5] \<lparr>zoom_k = 4, zoom_x = 0, zoom_y = 0\<rparr>) \<le> 4"
  using scale_stays_in_extent [of "[Zoom 100 5 5]"
      "\<lparr>zoom_k = 4, zoom_x = 0, zoom_y = 0\<rparr>" 100 5 5]
    scale_stays_in_extent [of "[]" zoomIdentity "1 / 1000" 7 7]
    scale_stays_in_extent [of "[]" zoomIdentity 2 1 1]
  by (simp add: view_after_def zoomIdentity_def clamp_scale_def scaleExtent_def)

end
